theory Spec2Isabelle
  imports Main
begin

section \<open>The dgraphtest backup helpers: \<open>RunAdminQuery\<close>, \<open>Backup\<close>, \<open>WaitForTask\<close>\<close>

text \<open>
  The Go package \<open>dgraphtest\<close> drives a long-running backup of a remote cluster:
  \<open>Backup\<close> posts a GraphQL mutation through \<open>RunAdminQuery\<close>, reads a task id out of
  the answer and hands it to \<open>WaitForTask\<close>, which sleeps, asks for the status of the
  task and decides on the answer, in a \<open>for\<close> loop without a condition.

  The embedding threads the two things the Go code acts on through every function: the
  cluster behind the \<open>Cluster\<close> interface (an arbitrary state of type \<open>'c\<close> and its
  \<open>AdminPost\<close> method as a state transformer) and a trace of the calls to
  \<open>time.Sleep\<close> and \<open>RunAdminQuery\<close> in the order in which they are made. The
  package \<open>encoding/json\<close> is a parameter: the four places where the code marshals or
  unmarshals are the four fields of the record \<open>json\<close>.
\<close>

subsection \<open>Data\<close>

type_synonym bytes = string

text \<open>
  Go's \<open>error\<close> values as the code builds them: an error of a callee (\<open>Err\<close>),
  \<open>errors.Wrap\<close>/\<open>errors.Wrapf\<close> around an error, the list of GraphQL errors of a
  response (an \<open>x.GqlErrorList\<close>, used as an error), and \<open>fmt.Errorf\<close> with its
  formatted message. A returned \<open>error\<close> is an \<open>error option\<close>, \<open>None\<close> for \<open>nil\<close>.
\<close>

datatype error =
    Err string
  | Wrap error string
  | GqlErrorList "string list"
  | Errorf string

text \<open>The values of type \<open>interface{}\<close> that the code stores in \<open>Variables\<close>.\<close>

datatype iface = VString string | VBool bool | VInt int

record graphQLParams =
  Query :: string
  Variables :: "string \<rightharpoonup> iface"

text \<open>
  \<open>graphQLResponse\<close>: the field \<open>Extensions\<close> is never read by the code and is left out.
\<close>

record graphQLResponse =
  Data :: bytes
  Errors :: "string list"

text \<open>The anonymous struct \<open>backupResp\<close> of \<open>Backup\<close>, nested as in the source.\<close>

record backupResponse =
  Code :: string

record backupBackup =
  Response :: backupResponse
  TaskID :: string

record backupResp =
  BackupF :: backupBackup

text \<open>The anonymous struct \<open>statusResp\<close> of \<open>WaitForTask\<close>.\<close>

record statusTask =
  Status :: string

record statusResp =
  Task :: statusTask

text \<open>
  \<open>encoding/json\<close> at the four types the code uses it at: \<open>json.Marshal\<close> of the
  parameters and \<open>json.Unmarshal\<close> into a \<open>graphQLResponse\<close>, into \<open>backupResp\<close> and
  into \<open>statusResp\<close>. Each returns the error or the value.
\<close>

record json =
  Marshal :: "graphQLParams \<Rightarrow> error + bytes"
  Unmarshal_graphQLResponse :: "bytes \<Rightarrow> error + graphQLResponse"
  Unmarshal_backupResp :: "bytes \<Rightarrow> error + backupResp"
  Unmarshal_statusResp :: "bytes \<Rightarrow> error + statusResp"

text \<open>
  The method \<open>AdminPost(body []byte) ([]byte, error)\<close> of the interface \<open>Cluster\<close>:
  from the state of the cluster and the request body to the answer and the next state.
\<close>

type_synonym 'c AdminPost = "'c \<Rightarrow> bytes \<Rightarrow> (error + bytes) \<times> 'c"

text \<open>
  What a run does, in order: \<open>Sleep d\<close> for a call \<open>time.Sleep(d)\<close> (\<open>d\<close> a
  \<open>time.Duration\<close>, in nanoseconds), \<open>AdminQuery p\<close> for a call \<open>RunAdminQuery(c, p)\<close>.
\<close>

datatype event = Sleep int | AdminQuery graphQLParams

record 'c world =
  cluster :: 'c
  trace :: "event list"

subsection \<open>Constants\<close>

definition Second :: int where
  "Second = 1000000000"

definition waitDurBeforeRetry :: int where
  "waitDurBeforeRetry = Second"

definition time_Sleep :: "int \<Rightarrow> 'c world \<Rightarrow> 'c world" where
  "time_Sleep d w = w\<lparr>trace := trace w @ [Sleep d]\<rparr>"

subsection \<open>\<open>RunAdminQuery\<close>\<close>

definition RunAdminQuery ::
  "json \<Rightarrow> 'c AdminPost \<Rightarrow> graphQLParams \<Rightarrow> 'c world \<Rightarrow> (error + bytes) \<times> 'c world" where
  "RunAdminQuery J post params w0 =
     (let w = w0\<lparr>trace := trace w0 @ [AdminQuery params]\<rparr> in
      case Marshal J params of
        Inl err \<Rightarrow> (Inl (Wrap err ''error while marshalling params''), w)
      | Inr reqBody \<Rightarrow>
          (case post (cluster w) reqBody of
             (Inl err, c') \<Rightarrow>
               (Inl (Wrap err ''error while running admin query''), w\<lparr>cluster := c'\<rparr>)
           | (Inr respBody, c') \<Rightarrow>
               (case Unmarshal_graphQLResponse J respBody of
                  Inl err \<Rightarrow>
                    (Inl (Wrap err ''error unmarshalling GQL response''), w\<lparr>cluster := c'\<rparr>)
                | Inr gqlResp \<Rightarrow>
                    if length (Errors gqlResp) > 0
                    then (Inl (Wrap (GqlErrorList (Errors gqlResp))
                                 ''error while running admin query''), w\<lparr>cluster := c'\<rparr>)
                    else (Inr (Data gqlResp), w\<lparr>cluster := c'\<rparr>))))"

subsection \<open>\<open>WaitForTask\<close>\<close>

text \<open>
  The two query texts are raw string literals spread over several lines in the source;
  their line breaks and indentation are written as single blanks here. Nothing in the
  code looks into them.
\<close>

definition task_query :: string where
  "task_query = ''query task($id: String!) { task(input: {id: $id}) { status } }''"

definition task_params :: "string \<Rightarrow> graphQLParams" where
  "task_params taskId = \<lparr>Query = task_query, Variables = [''id'' \<mapsto> VString taskId]\<rparr>"

text \<open>
  The body of the loop up to the \<open>switch\<close>: sleep, run the status query, decode the
  answer. It gives the error with which the loop returns, or the decoded status.
\<close>

definition pollStatus ::
  "json \<Rightarrow> 'c AdminPost \<Rightarrow> string \<Rightarrow> 'c world \<Rightarrow> (error + string) \<times> 'c world" where
  "pollStatus J post taskId w0 =
     (let w1 = time_Sleep waitDurBeforeRetry w0 in
      case RunAdminQuery J post (task_params taskId) w1 of
        (Inl err, w) \<Rightarrow> (Inl err, w)
      | (Inr resp, w) \<Rightarrow>
          (case Unmarshal_statusResp J resp of
             Inl err \<Rightarrow> (Inl (Wrap err ''error unmarshalling status response''), w)
           | Inr statusResp \<Rightarrow> (Inr (Status (Task statusResp)), w)))"

text \<open>
  One iteration of the loop: \<open>Return r\<close> when the iteration leaves the function with
  the error value \<open>r\<close>, \<open>Continue\<close> when it falls out of the \<open>switch\<close> into the next
  iteration.
\<close>

datatype step = Continue | Return "error option"

definition WaitForTask_body ::
  "json \<Rightarrow> 'c AdminPost \<Rightarrow> string \<Rightarrow> 'c world \<Rightarrow> step \<times> 'c world" where
  "WaitForTask_body J post taskId w0 =
     (case pollStatus J post taskId w0 of
        (Inl err, w) \<Rightarrow> (Return (Some err), w)
      | (Inr status, w) \<Rightarrow>
          if status = ''Success'' then (Return None, w)
          else if status = ''Failed'' \<or> status = ''Unknown''
          then (Return (Some (Errorf (''task failed with status: '' @ status))), w)
          else (Continue, w))"

text \<open>
  The loop \<open>for { ... }\<close> has no condition and may run forever: \<open>None\<close> is the run
  that never returns, \<open>Some (r, w)\<close> the run that returns \<open>r\<close> in the world \<open>w\<close>.
\<close>

partial_function (option) WaitForTask ::
  "json \<Rightarrow> 'c AdminPost \<Rightarrow> string \<Rightarrow> 'c world \<Rightarrow> (error option \<times> 'c world) option" where
  "WaitForTask J post taskId w0 =
     (case WaitForTask_body J post taskId w0 of
        (Continue, w) \<Rightarrow> WaitForTask J post taskId w
      | (Return r, w) \<Rightarrow> Some (r, w))"

text \<open>
  The same loop cut off after \<open>n\<close> iterations, to observe runs that do not return:
  \<open>(Continue, w)\<close> says that the loop is still running after \<open>n\<close> iterations, in the
  world \<open>w\<close>.
\<close>

fun WaitForTask_upto ::
  "json \<Rightarrow> 'c AdminPost \<Rightarrow> string \<Rightarrow> nat \<Rightarrow> 'c world \<Rightarrow> step \<times> 'c world" where
  "WaitForTask_upto J post taskId 0 w0 = (Continue, w0)"
| "WaitForTask_upto J post taskId (Suc n) w0 =
     (case WaitForTask_body J post taskId w0 of
        (Continue, w) \<Rightarrow> WaitForTask_upto J post taskId n w
      | (Return r, w) \<Rightarrow> (Return r, w))"

subsection \<open>\<open>Backup\<close>\<close>

definition backup_query :: string where
  "backup_query = ''mutation backup($dst: String!, $ff: Boolean!) { backup(input: {destination: $dst, forceFull: $ff}) { response { code } taskId } }''"

definition backup_params :: "bool \<Rightarrow> string \<Rightarrow> graphQLParams" where
  "backup_params forceFull backupPath =
     \<lparr>Query = backup_query,
      Variables = [''dst'' \<mapsto> VString backupPath, ''ff'' \<mapsto> VBool forceFull]\<rparr>"

definition Backup ::
  "json \<Rightarrow> 'c AdminPost \<Rightarrow> bool \<Rightarrow> string \<Rightarrow> 'c world \<Rightarrow> (error option \<times> 'c world) option" where
  "Backup J post forceFull backupPath w0 =
     (case RunAdminQuery J post (backup_params forceFull backupPath) w0 of
        (Inl err, w) \<Rightarrow> Some (Some err, w)
      | (Inr resp, w) \<Rightarrow>
          (case Unmarshal_backupResp J resp of
             Inl err \<Rightarrow> Some (Some (Wrap err ''error unmarshalling backup response''), w)
           | Inr backupResp \<Rightarrow>
               if Code (Response (BackupF backupResp)) \<noteq> ''Success''
               then Some (Some (Errorf ''backup failed''), w)
               else WaitForTask J post (TaskID (BackupF backupResp)) w))"

subsection \<open>The sequence of polls\<close>

text \<open>
  Vocabulary for statements about runs. \<open>poll_world k w\<close> is the world after \<open>k\<close>
  iterations of the loop started in \<open>w\<close>, and \<open>poll_result k w\<close> is what the poll
  of iteration \<open>k\<close> (counted from 0) gives: an error, or the decoded status.
  \<open>running r\<close> says that \<open>r\<close> is a decoded status other than the three on which the
  \<open>switch\<close> returns. \<open>queries\<close> picks the admin queries out of a trace, and
  \<open>one_poll\<close> is the trace of one iteration.
\<close>

fun poll_world :: "json \<Rightarrow> 'c AdminPost \<Rightarrow> string \<Rightarrow> nat \<Rightarrow> 'c world \<Rightarrow> 'c world" where
  "poll_world J post taskId 0 w = w"
| "poll_world J post taskId (Suc k) w = poll_world J post taskId k (snd (pollStatus J post taskId w))"

definition poll_result :: "json \<Rightarrow> 'c AdminPost \<Rightarrow> string \<Rightarrow> nat \<Rightarrow> 'c world \<Rightarrow> error + string" where
  "poll_result J post taskId k w = fst (pollStatus J post taskId (poll_world J post taskId k w))"

definition running :: "error + string \<Rightarrow> bool" where
  "running r = (case r of Inl err \<Rightarrow> False
                | Inr status \<Rightarrow> status \<noteq> ''Success'' \<and> status \<noteq> ''Failed'' \<and> status \<noteq> ''Unknown'')"

fun queries :: "event list \<Rightarrow> graphQLParams list" where
  "queries [] = []"
| "queries (Sleep d # es) = queries es"
| "queries (AdminQuery p # es) = p # queries es"

definition one_poll :: "string \<Rightarrow> event list" where
  "one_poll taskId = [Sleep waitDurBeforeRetry, AdminQuery (task_params taskId)]"

subsection \<open>A scripted cluster and a decoder for examples\<close>

text \<open>
  \<open>script_post d\<close> is a cluster that answers from a list, one answer per request, and
  answers \<open>d\<close> once the list is used up. \<open>stub_json\<close> decodes the response bodies
  listed below the way \<open>encoding/json\<close> does, and rejects every other body.
\<close>

definition script_post :: "(error + bytes) \<Rightarrow> ((error + bytes) list) AdminPost" where
  "script_post d rs body = (case rs of [] \<Rightarrow> (d, []) | r # rs' \<Rightarrow> (r, rs'))"

definition gql_table :: "(bytes \<times> graphQLResponse) list" where
  \<open>gql_table =
     [(''{"data":{"task":{"status":"Running"}}}'',
         \<lparr>Data = ''{"task":{"status":"Running"}}'', Errors = []\<rparr>),
      (''{"data":{"task":{"status":"Success"}}}'',
         \<lparr>Data = ''{"task":{"status":"Success"}}'', Errors = []\<rparr>),
      (''{"data":{"task":{"status":"Failed"}}}'',
         \<lparr>Data = ''{"task":{"status":"Failed"}}'', Errors = []\<rparr>),
      (''{"data":{"task":{"status":"Unknown"}}}'',
         \<lparr>Data = ''{"task":{"status":"Unknown"}}'', Errors = []\<rparr>),
      (''{"data":{"task":{"status":"success"}}}'',
         \<lparr>Data = ''{"task":{"status":"success"}}'', Errors = []\<rparr>),
      (''{"data":{"task":{}}}'',
         \<lparr>Data = ''{"task":{}}'', Errors = []\<rparr>),
      (''{"data":{"task":7}}'',
         \<lparr>Data = ''{"task":7}'', Errors = []\<rparr>),
      (''{"errors":[{"message":"resolving backup failed"}]}'',
         \<lparr>Data = [], Errors = [''resolving backup failed'']\<rparr>),
      (''{"data":{"backup":{"response":{"code":"Success"},"taskId":"0x2"}}}'',
         \<lparr>Data = ''{"backup":{"response":{"code":"Success"},"taskId":"0x2"}}'', Errors = []\<rparr>),
      (''{"data":{"backup":{"response":{"code":"Failure"},"taskId":"0x2"}}}'',
         \<lparr>Data = ''{"backup":{"response":{"code":"Failure"},"taskId":"0x2"}}'', Errors = []\<rparr>)]\<close>

definition status_table :: "(bytes \<times> statusResp) list" where
  \<open>status_table =
     [(''{"task":{"status":"Running"}}'', \<lparr>Task = \<lparr>Status = ''Running''\<rparr>\<rparr>),
      (''{"task":{"status":"Success"}}'', \<lparr>Task = \<lparr>Status = ''Success''\<rparr>\<rparr>),
      (''{"task":{"status":"Failed"}}'', \<lparr>Task = \<lparr>Status = ''Failed''\<rparr>\<rparr>),
      (''{"task":{"status":"Unknown"}}'', \<lparr>Task = \<lparr>Status = ''Unknown''\<rparr>\<rparr>),
      (''{"task":{"status":"success"}}'', \<lparr>Task = \<lparr>Status = ''success''\<rparr>\<rparr>),
      (''{"task":{}}'', \<lparr>Task = \<lparr>Status = []\<rparr>\<rparr>)]\<close>

definition backup_table :: "(bytes \<times> backupResp) list" where
  \<open>backup_table =
     [(''{"backup":{"response":{"code":"Success"},"taskId":"0x2"}}'',
         \<lparr>BackupF = \<lparr>Response = \<lparr>Code = ''Success''\<rparr>, TaskID = ''0x2''\<rparr>\<rparr>),
      (''{"backup":{"response":{"code":"Failure"},"taskId":"0x2"}}'',
         \<lparr>BackupF = \<lparr>Response = \<lparr>Code = ''Failure''\<rparr>, TaskID = ''0x2''\<rparr>\<rparr>)]\<close>

definition lookup_body :: "(bytes \<times> 'a) list \<Rightarrow> bytes \<Rightarrow> error + 'a" where
  "lookup_body tab b =
     (case map_of tab b of None \<Rightarrow> Inl (Err ''json: cannot unmarshal'') | Some v \<Rightarrow> Inr v)"

definition stub_json :: json where
  \<open>stub_json =
     \<lparr>Marshal = (\<lambda>p. Inr (''{"query":"'' @ Query p @ ''"}'')),
      Unmarshal_graphQLResponse = lookup_body gql_table,
      Unmarshal_backupResp = lookup_body backup_table,
      Unmarshal_statusResp = lookup_body status_table\<rparr>\<close>

section \<open>Properties\<close>

subsection \<open>Traces and the shape of a run\<close>

lemma trace_RunAdminQuery:
  "trace (snd (RunAdminQuery J post p w)) = trace w @ [AdminQuery p]"
  by (simp add: RunAdminQuery_def Let_def split: sum.split prod.split)

lemma trace_pollStatus:
  "trace (snd (pollStatus J post t w)) = trace w @ one_poll t"
proof -
  obtain r w' where q: "RunAdminQuery J post (task_params t) (time_Sleep waitDurBeforeRetry w) = (r, w')"
    by (cases "RunAdminQuery J post (task_params t) (time_Sleep waitDurBeforeRetry w)")
  from trace_RunAdminQuery [of J post "task_params t" "time_Sleep waitDurBeforeRetry w"] q
  have "trace w' = trace w @ one_poll t"
    by (simp add: time_Sleep_def one_poll_def)
  with q show ?thesis
    by (simp add: pollStatus_def Let_def split: sum.split)
qed

lemma poll_world_Suc:
  "poll_world J post t (Suc k) w = snd (pollStatus J post t (poll_world J post t k w))"
  by (induction k arbitrary: w) simp_all

lemma trace_poll_world:
  "trace (poll_world J post t k w) = trace w @ concat (replicate k (one_poll t))"
proof (induction k)
  case 0
  show ?case by simp
next
  case (Suc k)
  have "replicate (Suc k) (one_poll t) = replicate k (one_poll t) @ [one_poll t]"
    by (simp add: replicate_append_same)
  then have "concat (replicate k (one_poll t)) @ one_poll t = concat (replicate (Suc k) (one_poll t))"
    by (simp only: concat_append concat.simps append_Nil2)
  with Suc show ?case
    by (simp only: poll_world_Suc trace_pollStatus append_assoc)
qed

lemma queries_append: "queries (xs @ ys) = queries xs @ queries ys"
  by (induction xs rule: queries.induct) simp_all

lemma queries_polls:
  "queries (concat (replicate k (one_poll t))) = replicate k (task_params t)"
  by (induction k) (simp_all add: one_poll_def)

lemma body_pollStatus:
  "WaitForTask_body J post t w =
     (case fst (pollStatus J post t w) of
        Inl err \<Rightarrow> Return (Some err)
      | Inr s \<Rightarrow> if s = ''Success'' then Return None
                 else if s = ''Failed'' \<or> s = ''Unknown''
                 then Return (Some (Errorf (''task failed with status: '' @ s)))
                 else Continue,
      snd (pollStatus J post t w))"
  by (cases "pollStatus J post t w") (simp add: WaitForTask_body_def split: sum.split)

lemma body_running:
  "running (fst (pollStatus J post t w)) \<Longrightarrow>
   WaitForTask_body J post t w = (Continue, snd (pollStatus J post t w))"
  by (simp add: body_pollStatus running_def split: sum.splits)

lemma body_not_running:
  "\<not> running (fst (pollStatus J post t w)) \<Longrightarrow>
   \<exists>r. WaitForTask_body J post t w = (Return r, snd (pollStatus J post t w))"
  by (auto simp add: body_pollStatus running_def split: sum.splits)

lemma poll_result_0: "poll_result J post t 0 w = fst (pollStatus J post t w)"
  by (simp add: poll_result_def)

lemma poll_result_Suc:
  "poll_result J post t (Suc k) w = poll_result J post t k (snd (pollStatus J post t w))"
  by (simp add: poll_result_def)

lemma upto_running:
  "\<forall>i<k. running (poll_result J post t i w) \<Longrightarrow>
   WaitForTask_upto J post t k w = (Continue, poll_world J post t k w)"
proof (induction k arbitrary: w)
  case 0
  show ?case by simp
next
  case (Suc k)
  from Suc.prems have r0: "running (fst (pollStatus J post t w))"
    using poll_result_0 [of J post t w] by auto
  from Suc.prems have "\<forall>i<k. running (poll_result J post t i (snd (pollStatus J post t w)))"
    using poll_result_Suc [of J post t _ w] by auto
  from Suc.IH [OF this] body_running [OF r0] show ?case by simp
qed

lemma WaitForTask_skip:
  "\<forall>i<k. running (poll_result J post t i w) \<Longrightarrow>
   WaitForTask J post t w = WaitForTask J post t (poll_world J post t k w)"
proof (induction k arbitrary: w)
  case 0
  show ?case by simp
next
  case (Suc k)
  from Suc.prems have r0: "running (fst (pollStatus J post t w))"
    using poll_result_0 [of J post t w] by auto
  from Suc.prems have "\<forall>i<k. running (poll_result J post t i (snd (pollStatus J post t w)))"
    using poll_result_Suc [of J post t _ w] by auto
  from Suc.IH [OF this] have
    "WaitForTask J post t (snd (pollStatus J post t w)) = WaitForTask J post t (poll_world J post t (Suc k) w)"
    by simp
  moreover have "WaitForTask J post t w = WaitForTask J post t (snd (pollStatus J post t w))"
    by (subst WaitForTask.simps) (simp add: body_running [OF r0])
  ultimately show ?case by simp
qed

lemma WaitForTask_returns:
  "WaitForTask_body J post t w = (Return r, w') \<Longrightarrow> WaitForTask J post t w = Some (r, w')"
  by (subst WaitForTask.simps) simp

lemma WaitForTask_Some_running:
  "WaitForTask J post t w = Some y \<Longrightarrow> \<exists>k. \<not> running (poll_result J post t k w)"
proof (induction rule: WaitForTask.raw_induct [rotated 1, consumes 1])
  case (1 f J post t w y)
  show ?case
  proof (cases "running (fst (pollStatus J post t w))")
    case False
    then have "\<not> running (poll_result J post t 0 w)" by (simp add: poll_result_0)
    then show ?thesis by blast
  next
    case True
    with 1(2) have "f J post t (snd (pollStatus J post t w)) = Some y"
      by (simp add: body_running)
    from 1(1) [OF this] obtain k where "\<not> running (poll_result J post t k (snd (pollStatus J post t w)))"
      by blast
    then have "\<not> running (poll_result J post t (Suc k) w)" by (simp add: poll_result_Suc)
    then show ?thesis by blast
  qed
qed

lemma snd_body: "snd (WaitForTask_body J post t w) = snd (pollStatus J post t w)"
  by (simp add: body_pollStatus)

lemma upto_last:
  "\<forall>i<k. running (poll_result J post t i w) \<Longrightarrow>
   WaitForTask_upto J post t (Suc k) w = WaitForTask_body J post t (poll_world J post t k w)"
proof (induction k arbitrary: w)
  case 0
  show ?case by (simp split: prod.split step.split)
next
  case (Suc k)
  from Suc.prems have r0: "running (fst (pollStatus J post t w))"
    using poll_result_0 [of J post t w] by auto
  from Suc.prems have "\<forall>i<k. running (poll_result J post t i (snd (pollStatus J post t w)))"
    using poll_result_Suc [of J post t _ w] by auto
  from Suc.IH [OF this] body_running [OF r0] show ?case by simp
qed

lemma WaitForTask_last:
  assumes "\<forall>i<k. running (poll_result J post t i w)"
    and "WaitForTask_body J post t (poll_world J post t k w) = (Return r, w')"
  shows "WaitForTask J post t w = Some (r, w')"
  using WaitForTask_skip [OF assms(1)] WaitForTask_returns [OF assms(2)] by simp

lemma queries_poll_world:
  "queries (trace (poll_world J post t k w)) = queries (trace w) @ replicate k (task_params t)"
  by (simp add: trace_poll_world queries_append queries_polls)

lemma body_at:
  "WaitForTask_body J post t (poll_world J post t k w) =
     (case poll_result J post t k w of
        Inl err \<Rightarrow> Return (Some err)
      | Inr s \<Rightarrow> if s = ''Success'' then Return None
                 else if s = ''Failed'' \<or> s = ''Unknown''
                 then Return (Some (Errorf (''task failed with status: '' @ s)))
                 else Continue,
      poll_world J post t (Suc k) w)"
  by (simp only: body_pollStatus poll_result_def poll_world_Suc)

lemma WaitForTask_Some_world:
  assumes "WaitForTask J post t w = Some (r, w')"
  shows "\<exists>k. (\<forall>i<k. running (poll_result J post t i w)) \<and> \<not> running (poll_result J post t k w)
            \<and> w' = poll_world J post t (Suc k) w"
proof -
  from WaitForTask_Some_running [OF assms]
  obtain k where k: "\<not> running (poll_result J post t k w)"
    and least: "\<forall>i<k. running (poll_result J post t i w)"
    using exists_least_iff [of "\<lambda>k. \<not> running (poll_result J post t k w)"] by auto
  from k have "\<not> running (fst (pollStatus J post t (poll_world J post t k w)))"
    by (simp add: poll_result_def)
  from body_not_running [OF this] obtain r' where
    "WaitForTask_body J post t (poll_world J post t k w) = (Return r', poll_world J post t (Suc k) w)"
    by (auto simp only: poll_world_Suc)
  from WaitForTask_last [OF least this] assms have "w' = poll_world J post t (Suc k) w"
    by simp
  with k least show ?thesis by blast
qed

lemma WaitForTask_None_iff:
  "WaitForTask J post t w = None \<longleftrightarrow> (\<forall>k. running (poll_result J post t k w))"
proof
  assume none: "WaitForTask J post t w = None"
  show "\<forall>k. running (poll_result J post t k w)"
  proof (rule ccontr)
    assume "\<not> (\<forall>k. running (poll_result J post t k w))"
    then obtain k where k: "\<not> running (poll_result J post t k w)"
      and least: "\<forall>i<k. running (poll_result J post t i w)"
      using exists_least_iff [of "\<lambda>k. \<not> running (poll_result J post t k w)"] by auto
    from k have "\<not> running (fst (pollStatus J post t (poll_world J post t k w)))"
      by (simp add: poll_result_def)
    from body_not_running [OF this] obtain r' where
      "WaitForTask_body J post t (poll_world J post t k w) = (Return r', poll_world J post t (Suc k) w)"
      by (auto simp only: poll_world_Suc)
    from WaitForTask_last [OF least this] none show False by simp
  qed
next
  assume all: "\<forall>k. running (poll_result J post t k w)"
  show "WaitForTask J post t w = None"
  proof (cases "WaitForTask J post t w")
    case None
    then show ?thesis .
  next
    case (Some y)
    from WaitForTask_Some_running [OF this] all show ?thesis by blast
  qed
qed

text \<open>
  The loop and the loop cut off after \<open>n\<close> iterations agree: the first returns a
  result exactly when the second returns it for some \<open>n\<close>.
\<close>

lemma upto_returns:
  "WaitForTask_upto J post t n w = (Return r, w') \<Longrightarrow> WaitForTask J post t w = Some (r, w')"
proof (induction n arbitrary: w)
  case 0
  then show ?case by simp
next
  case (Suc n)
  show ?case
  proof (cases "WaitForTask_body J post t w")
    case (Pair st w1)
    show ?thesis
    proof (cases st)
      case Continue
      with Pair Suc.prems have "WaitForTask_upto J post t n w1 = (Return r, w')" by simp
      from Suc.IH [OF this] have "WaitForTask J post t w1 = Some (r, w')" .
      with Pair Continue show ?thesis by (subst WaitForTask.simps) simp
    next
      case (Return r1)
      with Pair Suc.prems have "WaitForTask_body J post t w = (Return r, w')" by simp
      then show ?thesis by (rule WaitForTask_returns)
    qed
  qed
qed

lemma WaitForTask_upto_agree:
  "WaitForTask J post t w = Some (r, w') \<longleftrightarrow> (\<exists>n. WaitForTask_upto J post t n w = (Return r, w'))"
proof
  assume run: "WaitForTask J post t w = Some (r, w')"
  from WaitForTask_Some_world [OF run] obtain k where
    first: "\<forall>i<k. running (poll_result J post t i w)"
    and last: "\<not> running (poll_result J post t k w)"
    by blast
  from last have "\<not> running (fst (pollStatus J post t (poll_world J post t k w)))"
    by (simp add: poll_result_def)
  from body_not_running [OF this] obtain r1 where
    b: "WaitForTask_body J post t (poll_world J post t k w) = (Return r1, poll_world J post t (Suc k) w)"
    by (auto simp only: poll_world_Suc)
  from WaitForTask_last [OF first b] run
  have "r1 = r" "poll_world J post t (Suc k) w = w'" by simp_all
  with b upto_last [OF first] have "WaitForTask_upto J post t (Suc k) w = (Return r, w')"
    by simp
  then show "\<exists>n. WaitForTask_upto J post t n w = (Return r, w')" ..
next
  assume "\<exists>n. WaitForTask_upto J post t n w = (Return r, w')"
  then obtain n where "WaitForTask_upto J post t n w = (Return r, w')" ..
  then show "WaitForTask J post t w = Some (r, w')" by (rule upto_returns)
qed

lemma upto_world:
  "\<exists>m\<le>n. snd (WaitForTask_upto J post t n w) = poll_world J post t m w \<and> (0 < n \<longrightarrow> 0 < m)"
proof (induction n arbitrary: w)
  case 0
  show ?case by simp
next
  case (Suc n)
  show ?case
  proof (cases "WaitForTask_body J post t w")
    case (Pair st w1)
    with snd_body [of J post t w] have w1: "w1 = snd (pollStatus J post t w)" by simp
    show ?thesis
    proof (cases st)
      case (Return r)
      with Pair w1 have "snd (WaitForTask_upto J post t (Suc n) w) = poll_world J post t (Suc 0) w"
        by simp
      then show ?thesis by (intro exI [of _ "Suc 0"]) simp
    next
      case Continue
      show ?thesis
      proof (cases n)
        case 0
        with Continue Pair w1 have "snd (WaitForTask_upto J post t (Suc n) w) = poll_world J post t (Suc 0) w"
          by simp
        with 0 show ?thesis by (intro exI [of _ "Suc 0"]) simp
      next
        case (Suc n')
        from Suc.IH [of w1] obtain m where m: "m \<le> n"
          "snd (WaitForTask_upto J post t n w1) = poll_world J post t m w1"
          by blast
        with Continue Pair w1 have "snd (WaitForTask_upto J post t (Suc n) w) = poll_world J post t (Suc m) w"
          by simp
        with m(1) show ?thesis by (intro exI [of _ "Suc m"]) simp
      qed
    qed
  qed
qed

lemma trace_poll_world_Suc:
  "trace (poll_world J post t (Suc m) w) =
     trace w @ Sleep waitDurBeforeRetry # AdminQuery (task_params t) # concat (replicate m (one_poll t))"
proof -
  have "trace (poll_world J post t (Suc m) w) = trace (poll_world J post t m (snd (pollStatus J post t w)))"
    by simp
  also have "\<dots> = (trace w @ one_poll t) @ concat (replicate m (one_poll t))"
    by (simp only: trace_poll_world trace_pollStatus)
  finally show ?thesis by (simp add: one_poll_def)
qed

lemma RunAdminQuery_Inl:
  "RunAdminQuery J post p w = (Inl err, w') \<Longrightarrow>
   Marshal J p = Inr body \<Longrightarrow> post (cluster w) body = (Inl e, c') \<Longrightarrow>
   err = Wrap e ''error while running admin query'' \<and> cluster w' = c'"
  by (auto simp add: RunAdminQuery_def Let_def)

lemma pollStatus_query_error:
  "RunAdminQuery J post (task_params t) (time_Sleep waitDurBeforeRetry w) = (Inl err, w') \<Longrightarrow>
   pollStatus J post t w = (Inl err, w')"
  by (simp add: pollStatus_def Let_def)

lemma pollStatus_decode_error:
  "RunAdminQuery J post (task_params t) (time_Sleep waitDurBeforeRetry w) = (Inr resp, w') \<Longrightarrow>
   Unmarshal_statusResp J resp = Inl e \<Longrightarrow>
   pollStatus J post t w = (Inl (Wrap e ''error unmarshalling status response''), w')"
  by (simp add: pollStatus_def Let_def)

lemma body_error:
  "pollStatus J post t w = (Inl err, w') \<Longrightarrow> WaitForTask_body J post t w = (Return (Some err), w')"
  by (simp add: WaitForTask_body_def)

lemmas stub_defs = pollStatus_def RunAdminQuery_def time_Sleep_def Let_def
  stub_json_def lookup_body_def gql_table_def status_table_def backup_table_def script_post_def

lemma busy_cluster_world:
  \<open>cluster (poll_world stub_json (script_post (Inr ''{"data":{"task":{"status":"Running"}}}'')) t k
      \<lparr>cluster = [], trace = tr\<rparr>) = []\<close>
proof (induction k arbitrary: tr)
  case 0
  show ?case by simp
next
  case (Suc k)
  have \<open>\<exists>tr'. snd (pollStatus stub_json (script_post (Inr ''{"data":{"task":{"status":"Running"}}}'')) t
      \<lparr>cluster = [], trace = tr\<rparr>) = \<lparr>cluster = [], trace = tr'\<rparr>\<close>
    by (simp add: stub_defs)
  with Suc show ?case by auto
qed

lemma busy_cluster_running:
  \<open>running (poll_result stub_json (script_post (Inr ''{"data":{"task":{"status":"Running"}}}'')) t k
      \<lparr>cluster = [], trace = []\<rparr>)\<close>
proof -
  let ?w = \<open>poll_world stub_json (script_post (Inr ''{"data":{"task":{"status":"Running"}}}'')) t k
      \<lparr>cluster = [], trace = []\<rparr>\<close>
  have "?w = \<lparr>cluster = [], trace = trace ?w\<rparr>"
    using busy_cluster_world [of t k "[]"] by simp
  then obtain tr where "?w = \<lparr>cluster = [], trace = tr\<rparr>" ..
  then show ?thesis
    by (simp add: poll_result_def running_def stub_defs)
qed

lemma one_poll_unfold:
  "one_poll t = [Sleep 1000000000, AdminQuery (task_params t)]"
  by (simp add: one_poll_def waitDurBeforeRetry_def Second_def)

lemma queries_differ: "task_params t \<noteq> backup_params ff path"
proof
  assume "task_params t = backup_params ff path"
  then have "Query (task_params t) = Query (backup_params ff path)" by simp
  then show False by (simp add: task_params_def backup_params_def task_query_def backup_query_def)
qed

lemma RunAdminQuery_response_error:
  assumes "Marshal J p = Inr body"
    and "post (cluster w) body = (Inr respBody, c')"
    and "Unmarshal_graphQLResponse J respBody = Inl e
         \<or> (\<exists>g. Unmarshal_graphQLResponse J respBody = Inr g \<and> Errors g \<noteq> [])"
  shows "RunAdminQuery J post p w =
           (Inl (case Unmarshal_graphQLResponse J respBody of
                   Inl e \<Rightarrow> Wrap e ''error unmarshalling GQL response''
                 | Inr g \<Rightarrow> Wrap (GqlErrorList (Errors g)) ''error while running admin query''),
            \<lparr>cluster = c', trace = trace w @ [AdminQuery p]\<rparr>)"
  using assms by (auto simp add: RunAdminQuery_def Let_def)

subsection \<open>Claims about \<open>WaitForTask\<close>\<close>

text \<open>
  C1. \<open>WaitForTask\<close> returns at the first poll whose decoded status is terminal. If
  the polls before poll \<open>k\<close> all gave a status other than \<open>Success\<close>, \<open>Failed\<close>
  and \<open>Unknown\<close>, and poll \<open>k\<close> gives the status \<open>s\<close>, then: for \<open>s = Success\<close> the
  function returns \<open>nil\<close>; for \<open>s = Failed\<close> or \<open>s = Unknown\<close> it returns the error
  \<open>task failed with status: s\<close>; in both cases in the world right after poll \<open>k\<close>,
  whose trace holds \<open>k + 1\<close> status queries and no more. For any other \<open>s\<close> the loop
  is still running after \<open>k + 1\<close> iterations and the next iteration issues one more
  status query.
\<close>

theorem WaitForTask_first_terminal:
  assumes "\<forall>i<k. running (poll_result J post t i w)"
    and "poll_result J post t k w = Inr s"
  shows "(s = ''Success'' \<longrightarrow>
            WaitForTask J post t w = Some (None, poll_world J post t (Suc k) w))
       \<and> (s = ''Failed'' \<or> s = ''Unknown'' \<longrightarrow>
            WaitForTask J post t w =
              Some (Some (Errorf (''task failed with status: '' @ s)), poll_world J post t (Suc k) w))
       \<and> (s \<noteq> ''Success'' \<and> s \<noteq> ''Failed'' \<and> s \<noteq> ''Unknown'' \<longrightarrow>
            WaitForTask_upto J post t (Suc k) w = (Continue, poll_world J post t (Suc k) w)
          \<and> WaitForTask J post t w = WaitForTask J post t (poll_world J post t (Suc k) w)
          \<and> queries (trace (snd (WaitForTask_upto J post t (Suc (Suc k)) w))) =
              queries (trace w) @ replicate (Suc (Suc k)) (task_params t))
       \<and> queries (trace (poll_world J post t (Suc k) w)) =
            queries (trace w) @ replicate (Suc k) (task_params t)"
proof (intro conjI impI)
  assume "s = ''Success''"
  with assms(2) have "WaitForTask_body J post t (poll_world J post t k w) =
      (Return None, poll_world J post t (Suc k) w)"
    by (simp add: body_at)
  from WaitForTask_last [OF assms(1) this]
  show "WaitForTask J post t w = Some (None, poll_world J post t (Suc k) w)" .
next
  assume "s = ''Failed'' \<or> s = ''Unknown''"
  with assms(2) have "WaitForTask_body J post t (poll_world J post t k w) =
      (Return (Some (Errorf (''task failed with status: '' @ s))), poll_world J post t (Suc k) w)"
    by (auto simp add: body_at)
  from WaitForTask_last [OF assms(1) this]
  show "WaitForTask J post t w =
      Some (Some (Errorf (''task failed with status: '' @ s)), poll_world J post t (Suc k) w)" .
next
  assume other: "s \<noteq> ''Success'' \<and> s \<noteq> ''Failed'' \<and> s \<noteq> ''Unknown''"
  with assms(2) have "running (poll_result J post t k w)"
    by (simp add: running_def)
  with assms(1) have more: "\<forall>i<Suc k. running (poll_result J post t i w)"
    by (simp add: less_Suc_eq)
  from upto_running [OF more]
  show "WaitForTask_upto J post t (Suc k) w = (Continue, poll_world J post t (Suc k) w)" .
  from WaitForTask_skip [OF more]
  show "WaitForTask J post t w = WaitForTask J post t (poll_world J post t (Suc k) w)" .
  have "snd (WaitForTask_upto J post t (Suc (Suc k)) w) = poll_world J post t (Suc (Suc k)) w"
    by (simp only: upto_last [OF more] snd_body poll_world_Suc)
  then show "queries (trace (snd (WaitForTask_upto J post t (Suc (Suc k)) w))) =
      queries (trace w) @ replicate (Suc (Suc k)) (task_params t)"
    by (simp only: queries_poll_world)
next
  show "queries (trace (poll_world J post t (Suc k) w)) =
      queries (trace w) @ replicate (Suc k) (task_params t)"
    by (rule queries_poll_world)
qed

theorem WaitForTask_first_terminal_witness:
  \<open>WaitForTask stub_json (script_post (Inl (Err ''EOF''))) ''0x2''
      \<lparr>cluster = [Inr ''{"data":{"task":{"status":"Running"}}}'',
                  Inr ''{"data":{"task":{"status":"Failed"}}}'',
                  Inr ''{"data":{"task":{"status":"Success"}}}''],
       trace = []\<rparr>
    = Some (Some (Errorf ''task failed with status: Failed''),
        \<lparr>cluster = [Inr ''{"data":{"task":{"status":"Success"}}}''],
         trace = [Sleep 1000000000, AdminQuery (task_params ''0x2''),
                  Sleep 1000000000, AdminQuery (task_params ''0x2'')]\<rparr>)\<close>
  using WaitForTask_first_terminal [of "Suc 0" stub_json "script_post (Inl (Err ''EOF''))" "''0x2''"
      \<open>\<lparr>cluster = [Inr ''{"data":{"task":{"status":"Running"}}}'',
                  Inr ''{"data":{"task":{"status":"Failed"}}}'',
                  Inr ''{"data":{"task":{"status":"Success"}}}''],
       trace = []\<rparr>\<close> "''Failed''"]
  by (simp add: poll_result_def running_def stub_defs waitDurBeforeRetry_def Second_def)

text \<open>
  C2. For a task whose first two polls decode to a status that is not terminal and whose
  third poll decodes to \<open>Success\<close>, \<open>WaitForTask\<close> returns \<open>nil\<close> after exactly
  three status queries: the run adds three times a sleep and a status query to the
  trace, and nothing else.
\<close>

theorem WaitForTask_three_polls:
  assumes "running (poll_result J post t 0 w)"
    and "running (poll_result J post t (Suc 0) w)"
    and "poll_result J post t (Suc (Suc 0)) w = Inr ''Success''"
  shows "\<exists>w'. WaitForTask J post t w = Some (None, w')
           \<and> queries (trace w') =
               queries (trace w) @ [task_params t, task_params t, task_params t]
           \<and> trace w' = trace w @
               [Sleep waitDurBeforeRetry, AdminQuery (task_params t),
                Sleep waitDurBeforeRetry, AdminQuery (task_params t),
                Sleep waitDurBeforeRetry, AdminQuery (task_params t)]"
proof -
  let ?w' = "poll_world J post t (Suc (Suc (Suc 0))) w"
  from assms(1,2) have first: "\<forall>i<Suc (Suc 0). running (poll_result J post t i w)"
    by (simp add: less_Suc_eq)
  from assms(3) have "WaitForTask_body J post t (poll_world J post t (Suc (Suc 0)) w) = (Return None, ?w')"
    by (simp add: body_at del: poll_world.simps)
  from WaitForTask_last [OF first this] have "WaitForTask J post t w = Some (None, ?w')" .
  moreover have "queries (trace ?w') = queries (trace w) @ [task_params t, task_params t, task_params t]"
    by (simp add: queries_poll_world del: poll_world.simps)
  moreover have "trace ?w' = trace w @
      [Sleep waitDurBeforeRetry, AdminQuery (task_params t),
       Sleep waitDurBeforeRetry, AdminQuery (task_params t),
       Sleep waitDurBeforeRetry, AdminQuery (task_params t)]"
    by (simp add: trace_poll_world one_poll_def del: poll_world.simps)
  ultimately show ?thesis by blast
qed

theorem WaitForTask_three_polls_witness:
  \<open>\<exists>w'. WaitForTask stub_json (script_post (Inl (Err ''EOF''))) ''0x2''
      \<lparr>cluster = [Inr ''{"data":{"task":{"status":"Running"}}}'',
                  Inr ''{"data":{"task":{"status":"Running"}}}'',
                  Inr ''{"data":{"task":{"status":"Success"}}}''],
       trace = []\<rparr> = Some (None, w')
     \<and> queries (trace w') = [task_params ''0x2'', task_params ''0x2'', task_params ''0x2'']\<close>
proof -
  let ?post = "script_post (Inl (Err ''EOF''))"
  let ?w = \<open>\<lparr>cluster = [Inr ''{"data":{"task":{"status":"Running"}}}'',
                  Inr ''{"data":{"task":{"status":"Running"}}}'',
                  Inr ''{"data":{"task":{"status":"Success"}}}''],
       trace = []\<rparr>\<close>
  have p0: "running (poll_result stub_json ?post ''0x2'' 0 ?w)"
    by (simp add: poll_result_def running_def stub_defs)
  have p1: "running (poll_result stub_json ?post ''0x2'' (Suc 0) ?w)"
    by (simp add: poll_result_def running_def stub_defs)
  have p2: "poll_result stub_json ?post ''0x2'' (Suc (Suc 0)) ?w = Inr ''Success''"
    by (simp add: poll_result_def stub_defs)
  from WaitForTask_three_polls [OF p0 p1 p2] show ?thesis by auto
qed

text \<open>
  C3. \<open>WaitForTask\<close> has no retry limit and no deadline. The run never returns
  exactly when every poll decodes to a status other than \<open>Success\<close>, \<open>Failed\<close> and
  \<open>Unknown\<close> (so it returns exactly when some poll gives an error or a terminal
  status); and in that case the loop is still running after \<open>n\<close> iterations for every
  \<open>n\<close>, having issued \<open>n\<close> status queries.
\<close>

theorem WaitForTask_unbounded:
  "(WaitForTask J post t w = None \<longleftrightarrow> (\<forall>k. running (poll_result J post t k w)))
   \<and> ((\<forall>k. running (poll_result J post t k w)) \<longrightarrow>
        (\<forall>n. WaitForTask_upto J post t n w = (Continue, poll_world J post t n w)
            \<and> queries (trace (poll_world J post t n w)) =
                queries (trace w) @ replicate n (task_params t)))"
proof (intro conjI impI allI)
  show "WaitForTask J post t w = None \<longleftrightarrow> (\<forall>k. running (poll_result J post t k w))"
    by (rule WaitForTask_None_iff)
next
  fix n
  assume "\<forall>k. running (poll_result J post t k w)"
  then have "\<forall>i<n. running (poll_result J post t i w)" by simp
  from upto_running [OF this]
  show "WaitForTask_upto J post t n w = (Continue, poll_world J post t n w)" .
next
  fix n
  show "queries (trace (poll_world J post t n w)) = queries (trace w) @ replicate n (task_params t)"
    by (rule queries_poll_world)
qed

theorem WaitForTask_unbounded_witness:
  \<open>WaitForTask stub_json (script_post (Inr ''{"data":{"task":{"status":"Running"}}}'')) ''0x2''
      \<lparr>cluster = [], trace = []\<rparr> = None
   \<and> fst (WaitForTask_upto stub_json (script_post (Inr ''{"data":{"task":{"status":"Running"}}}''))
        ''0x2'' 1000 \<lparr>cluster = [], trace = []\<rparr>) = Continue
   \<and> WaitForTask stub_json (script_post (Inr ''{"data":{"task":{"status":"Running"}}}'')) ''0x2''
      \<lparr>cluster = [Inr ''{"data":{"task":{"status":"Success"}}}''], trace = []\<rparr> \<noteq> None\<close>
  using WaitForTask_unbounded [of stub_json
      \<open>script_post (Inr ''{"data":{"task":{"status":"Running"}}}'')\<close> "''0x2''"
      "\<lparr>cluster = [], trace = []\<rparr>"]
    busy_cluster_running [of "''0x2''"]
    WaitForTask_unbounded [of stub_json
      \<open>script_post (Inr ''{"data":{"task":{"status":"Running"}}}'')\<close> "''0x2''"
      \<open>\<lparr>cluster = [Inr ''{"data":{"task":{"status":"Success"}}}''], trace = []\<rparr>\<close>,
      THEN conjunct1]
  apply (simp del: poll_world.simps WaitForTask_upto.simps)
  apply (rule exI [of _ 0])
  apply (simp add: poll_result_def running_def stub_defs)
  done

text \<open>
  C4. If \<open>RunAdminQuery\<close> fails on poll \<open>k\<close> (the polls before it not terminal), then
  \<open>WaitForTask\<close> returns that very error, in the world in which \<open>RunAdminQuery\<close> left
  it: \<open>k + 1\<close> status queries were issued and none follows. When the failure is the
  one of the transport call \<open>AdminPost\<close>, the error is that error wrapped with
  \<open>error while running admin query\<close>.
\<close>

theorem WaitForTask_query_error:
  assumes "\<forall>i<k. running (poll_result J post t i w)"
    and "RunAdminQuery J post (task_params t)
           (time_Sleep waitDurBeforeRetry (poll_world J post t k w)) = (Inl err, w')"
  shows "WaitForTask J post t w = Some (Some err, w')
       \<and> queries (trace w') = queries (trace w) @ replicate (Suc k) (task_params t)
       \<and> (\<forall>body e c'. Marshal J (task_params t) = Inr body
              \<and> post (cluster (poll_world J post t k w)) body = (Inl e, c')
            \<longrightarrow> err = Wrap e ''error while running admin query'' \<and> cluster w' = c')"
proof (intro conjI)
  from pollStatus_query_error [OF assms(2)]
  have p: "pollStatus J post t (poll_world J post t k w) = (Inl err, w')" .
  from WaitForTask_last [OF assms(1) body_error [OF p]]
  show "WaitForTask J post t w = Some (Some err, w')" .
  from p have "w' = poll_world J post t (Suc k) w"
    by (simp only: poll_world_Suc snd_conv)
  then show "queries (trace w') = queries (trace w) @ replicate (Suc k) (task_params t)"
    by (simp only: queries_poll_world)
  show "\<forall>body e c'. Marshal J (task_params t) = Inr body
              \<and> post (cluster (poll_world J post t k w)) body = (Inl e, c')
            \<longrightarrow> err = Wrap e ''error while running admin query'' \<and> cluster w' = c'"
  proof (intro allI impI)
    fix body e c'
    assume a: "Marshal J (task_params t) = Inr body
        \<and> post (cluster (poll_world J post t k w)) body = (Inl e, c')"
    then have "post (cluster (time_Sleep waitDurBeforeRetry (poll_world J post t k w))) body = (Inl e, c')"
      by (simp add: time_Sleep_def)
    from RunAdminQuery_Inl [OF assms(2) _ this] a
    show "err = Wrap e ''error while running admin query'' \<and> cluster w' = c'" by blast
  qed
qed

theorem WaitForTask_query_error_witness:
  \<open>WaitForTask stub_json (script_post (Inl (Err ''EOF''))) ''0x2''
      \<lparr>cluster = [Inr ''{"data":{"task":{"status":"Running"}}}'',
                  Inl (Err ''connection reset by peer''),
                  Inr ''{"data":{"task":{"status":"Success"}}}''],
       trace = []\<rparr>
    = Some (Some (Wrap (Err ''connection reset by peer'') ''error while running admin query''),
        \<lparr>cluster = [Inr ''{"data":{"task":{"status":"Success"}}}''],
         trace = [Sleep 1000000000, AdminQuery (task_params ''0x2''),
                  Sleep 1000000000, AdminQuery (task_params ''0x2'')]\<rparr>)\<close>
  using WaitForTask_query_error [of "Suc 0" stub_json "script_post (Inl (Err ''EOF''))" "''0x2''"
      \<open>\<lparr>cluster = [Inr ''{"data":{"task":{"status":"Running"}}}'',
                  Inl (Err ''connection reset by peer''),
                  Inr ''{"data":{"task":{"status":"Success"}}}''],
       trace = []\<rparr>\<close>
      \<open>Wrap (Err ''connection reset by peer'') ''error while running admin query''\<close>
      \<open>\<lparr>cluster = [Inr ''{"data":{"task":{"status":"Success"}}}''],
         trace = [Sleep 1000000000, AdminQuery (task_params ''0x2''),
                  Sleep 1000000000, AdminQuery (task_params ''0x2'')]\<rparr>\<close>]
  by (simp add: poll_result_def running_def stub_defs waitDurBeforeRetry_def Second_def)

text \<open>
  C6. If the answer to the status query of poll \<open>k\<close> cannot be decoded into the status
  struct, \<open>WaitForTask\<close> returns the decoding error wrapped with
  \<open>error unmarshalling status response\<close>, right after that poll: \<open>k + 1\<close> status
  queries were issued and none follows.
\<close>

theorem WaitForTask_decode_error:
  assumes "\<forall>i<k. running (poll_result J post t i w)"
    and "RunAdminQuery J post (task_params t)
           (time_Sleep waitDurBeforeRetry (poll_world J post t k w)) = (Inr resp, w')"
    and "Unmarshal_statusResp J resp = Inl e"
  shows "WaitForTask J post t w =
           Some (Some (Wrap e ''error unmarshalling status response''), w')
       \<and> queries (trace w') = queries (trace w) @ replicate (Suc k) (task_params t)"
proof
  from pollStatus_decode_error [OF assms(2,3)]
  have p: "pollStatus J post t (poll_world J post t k w) =
      (Inl (Wrap e ''error unmarshalling status response''), w')" .
  from WaitForTask_last [OF assms(1) body_error [OF p]]
  show "WaitForTask J post t w = Some (Some (Wrap e ''error unmarshalling status response''), w')" .
  from p have "w' = poll_world J post t (Suc k) w"
    by (simp only: poll_world_Suc snd_conv)
  then show "queries (trace w') = queries (trace w) @ replicate (Suc k) (task_params t)"
    by (simp only: queries_poll_world)
qed

theorem WaitForTask_decode_error_witness:
  \<open>WaitForTask stub_json (script_post (Inl (Err ''EOF''))) ''0x2''
      \<lparr>cluster = [Inr ''{"data":{"task":7}}'',
                  Inr ''{"data":{"task":{"status":"Success"}}}''],
       trace = []\<rparr>
    = Some (Some (Wrap (Err ''json: cannot unmarshal'') ''error unmarshalling status response''),
        \<lparr>cluster = [Inr ''{"data":{"task":{"status":"Success"}}}''],
         trace = [Sleep 1000000000, AdminQuery (task_params ''0x2'')]\<rparr>)\<close>
  using WaitForTask_decode_error [of 0 stub_json "script_post (Inl (Err ''EOF''))" "''0x2''"
      \<open>\<lparr>cluster = [Inr ''{"data":{"task":7}}'',
                  Inr ''{"data":{"task":{"status":"Success"}}}''],
       trace = []\<rparr>\<close>
      \<open>''{"task":7}''\<close>
      \<open>\<lparr>cluster = [Inr ''{"data":{"task":{"status":"Success"}}}''],
         trace = [Sleep 1000000000, AdminQuery (task_params ''0x2'')]\<rparr>\<close>
      \<open>Err ''json: cannot unmarshal''\<close>]
  by (simp add: stub_defs waitDurBeforeRetry_def Second_def)

text \<open>
  C7. The polling interval is fixed at one second. \<open>waitDurBeforeRetry\<close> is
  \<open>time.Second\<close>, that is 1000000000 nanoseconds, and every iteration calls
  \<open>time.Sleep\<close> with exactly this value right before its status query: the trace of
  a run, cut off after any number of iterations or run until it returns, is the trace
  before it followed by repetitions of the same pair, a sleep of one second and the
  status query.
\<close>

theorem WaitForTask_fixed_interval:
  "waitDurBeforeRetry = 1000000000
   \<and> (\<exists>m\<le>n. trace (snd (WaitForTask_upto J post t n w)) =
         trace w @ concat (replicate m [Sleep 1000000000, AdminQuery (task_params t)]))
   \<and> (\<forall>r w'. WaitForTask J post t w = Some (r, w') \<longrightarrow>
         (\<exists>m. trace w' =
            trace w @ concat (replicate (Suc m) [Sleep 1000000000, AdminQuery (task_params t)])))"
proof (intro conjI allI impI)
  show "waitDurBeforeRetry = 1000000000"
    by (simp add: waitDurBeforeRetry_def Second_def)
next
  from upto_world [of n J post t w] obtain m where
    "m \<le> n" "snd (WaitForTask_upto J post t n w) = poll_world J post t m w"
    by blast
  then show "\<exists>m\<le>n. trace (snd (WaitForTask_upto J post t n w)) =
      trace w @ concat (replicate m [Sleep 1000000000, AdminQuery (task_params t)])"
    by (auto simp only: trace_poll_world one_poll_unfold)
next
  fix r w'
  assume "WaitForTask J post t w = Some (r, w')"
  from WaitForTask_Some_world [OF this] obtain k where "w' = poll_world J post t (Suc k) w"
    by blast
  then show "\<exists>m. trace w' =
      trace w @ concat (replicate (Suc m) [Sleep 1000000000, AdminQuery (task_params t)])"
    by (auto simp only: trace_poll_world one_poll_unfold)
qed

theorem WaitForTask_fixed_interval_witness:
  \<open>WaitForTask stub_json (script_post (Inl (Err ''EOF''))) ''0x2''
      \<lparr>cluster = [Inr ''{"data":{"task":{"status":"Running"}}}'',
                  Inr ''{"data":{"task":{"status":"Success"}}}''],
       trace = []\<rparr>
     = Some (None, \<lparr>cluster = [],
         trace = [Sleep 1000000000, AdminQuery (task_params ''0x2''),
                  Sleep 1000000000, AdminQuery (task_params ''0x2'')]\<rparr>)
   \<and> (\<exists>m. [Sleep 1000000000, AdminQuery (task_params ''0x2''),
            Sleep 1000000000, AdminQuery (task_params ''0x2'')] =
           concat (replicate (Suc m) [Sleep 1000000000, AdminQuery (task_params ''0x2'')]))\<close>
proof -
  let ?post = "script_post (Inl (Err ''EOF''))"
  let ?w = \<open>\<lparr>cluster = [Inr ''{"data":{"task":{"status":"Running"}}}'',
                  Inr ''{"data":{"task":{"status":"Success"}}}''],
       trace = []\<rparr>\<close>
  let ?w' = \<open>\<lparr>cluster = [],
         trace = [Sleep 1000000000, AdminQuery (task_params ''0x2''),
                  Sleep 1000000000, AdminQuery (task_params ''0x2'')]\<rparr>\<close>
  have first: "\<forall>i<Suc 0. running (poll_result stub_json ?post ''0x2'' i ?w)"
    by (simp add: poll_result_def running_def stub_defs)
  have "WaitForTask_body stub_json ?post ''0x2'' (poll_world stub_json ?post ''0x2'' (Suc 0) ?w)
      = (Return None, ?w')"
    by (simp add: WaitForTask_body_def stub_defs waitDurBeforeRetry_def Second_def)
  from WaitForTask_last [OF first this]
  have run: "WaitForTask stub_json ?post ''0x2'' ?w = Some (None, ?w')" .
  from WaitForTask_fixed_interval [of 0 stub_json ?post "''0x2''" ?w,
      THEN conjunct2, THEN conjunct2, rule_format, OF run]
  have "\<exists>m. [Sleep 1000000000, AdminQuery (task_params ''0x2''),
            Sleep 1000000000, AdminQuery (task_params ''0x2'')] =
           concat (replicate (Suc m) [Sleep 1000000000, AdminQuery (task_params ''0x2'')])"
    by simp
  with run show ?thesis by blast
qed

text \<open>
  C8. \<open>WaitForTask\<close> sleeps before its first status query. Whatever the cluster
  answers, what a run with at least one iteration adds to the trace begins with the sleep
  of one second followed by the status query; this holds for the runs that return as
  well, and a run whose very first poll ends the loop adds exactly this sleep and this
  query.
\<close>

theorem WaitForTask_sleeps_first:
  "(\<exists>rest. trace (snd (WaitForTask_upto J post t (Suc n) w)) =
       trace w @ Sleep waitDurBeforeRetry # AdminQuery (task_params t) # rest)
   \<and> (\<forall>r w'. WaitForTask J post t w = Some (r, w') \<longrightarrow>
        (\<exists>rest. trace w' =
           trace w @ Sleep waitDurBeforeRetry # AdminQuery (task_params t) # rest))
   \<and> (\<not> running (poll_result J post t 0 w) \<longrightarrow>
        (\<exists>r w'. WaitForTask J post t w = Some (r, w')
           \<and> trace w' = trace w @ [Sleep waitDurBeforeRetry, AdminQuery (task_params t)]))"
proof (intro conjI allI impI)
  from upto_world [of "Suc n" J post t w] obtain m where
    "0 < m" "snd (WaitForTask_upto J post t (Suc n) w) = poll_world J post t m w"
    by auto
  then obtain m' where "snd (WaitForTask_upto J post t (Suc n) w) = poll_world J post t (Suc m') w"
    by (cases m) auto
  then show "\<exists>rest. trace (snd (WaitForTask_upto J post t (Suc n) w)) =
       trace w @ Sleep waitDurBeforeRetry # AdminQuery (task_params t) # rest"
    by (simp only: trace_poll_world_Suc) blast
next
  fix r w'
  assume "WaitForTask J post t w = Some (r, w')"
  from WaitForTask_Some_world [OF this] obtain k where "w' = poll_world J post t (Suc k) w"
    by blast
  then show "\<exists>rest. trace w' =
       trace w @ Sleep waitDurBeforeRetry # AdminQuery (task_params t) # rest"
    by (simp only: trace_poll_world_Suc) blast
next
  assume "\<not> running (poll_result J post t 0 w)"
  then have "\<not> running (fst (pollStatus J post t w))" by (simp add: poll_result_0)
  from body_not_running [OF this] obtain r where
    "WaitForTask_body J post t w = (Return r, snd (pollStatus J post t w))" ..
  from WaitForTask_returns [OF this]
  have "WaitForTask J post t w = Some (r, snd (pollStatus J post t w))" .
  moreover have "trace (snd (pollStatus J post t w)) =
      trace w @ [Sleep waitDurBeforeRetry, AdminQuery (task_params t)]"
    by (simp add: trace_pollStatus one_poll_def)
  ultimately show "\<exists>r w'. WaitForTask J post t w = Some (r, w')
      \<and> trace w' = trace w @ [Sleep waitDurBeforeRetry, AdminQuery (task_params t)]"
    by blast
qed

theorem WaitForTask_sleeps_first_witness:
  \<open>\<exists>r w'. WaitForTask stub_json (script_post (Inl (Err ''EOF''))) ''0x2''
      \<lparr>cluster = [Inr ''{"data":{"task":{"status":"Unknown"}}}''], trace = []\<rparr> = Some (r, w')
     \<and> trace w' = [Sleep waitDurBeforeRetry, AdminQuery (task_params ''0x2'')]\<close>
proof -
  let ?post = "script_post (Inl (Err ''EOF''))"
  let ?w = \<open>\<lparr>cluster = [Inr ''{"data":{"task":{"status":"Unknown"}}}''], trace = []\<rparr>\<close>
  have "\<not> running (poll_result stub_json ?post ''0x2'' 0 ?w)"
    by (simp add: poll_result_def running_def stub_defs)
  with WaitForTask_sleeps_first [of stub_json ?post "''0x2''" 0 ?w]
  show ?thesis by simp
qed

text \<open>
  C9. The \<open>switch\<close> compares the decoded status with the three strings exactly. An
  iteration whose poll decodes to the status \<open>s\<close> goes on to the next iteration exactly
  when \<open>s\<close> is none of \<open>Success\<close>, \<open>Failed\<close>, \<open>Unknown\<close>, and returns exactly
  when it is one of them. In particular the empty string and the spellings that differ in
  case or by one character do not end the loop: the next iteration sleeps and polls again.
\<close>

theorem WaitForTask_exact_match:
  assumes "pollStatus J post t w = (Inr s, w')"
  shows "(WaitForTask_body J post t w = (Continue, w') \<longleftrightarrow>
            s \<noteq> ''Success'' \<and> s \<noteq> ''Failed'' \<and> s \<noteq> ''Unknown'')
       \<and> ((\<exists>r. WaitForTask_body J post t w = (Return r, w')) \<longleftrightarrow>
            s = ''Success'' \<or> s = ''Failed'' \<or> s = ''Unknown'')
       \<and> (s \<in> {'''', ''success'', ''SUCCESS'', ''failed'', ''FAILED'', ''unknown'', ''UNKNOWN'',
                ''Success '', ''Succes''} \<longrightarrow>
            WaitForTask_body J post t w = (Continue, w')
          \<and> WaitForTask J post t w = WaitForTask J post t w'
          \<and> trace (snd (WaitForTask_upto J post t (Suc (Suc 0)) w)) =
              trace w @ [Sleep waitDurBeforeRetry, AdminQuery (task_params t),
                         Sleep waitDurBeforeRetry, AdminQuery (task_params t)])"
proof (intro conjI impI)
  from assms show "WaitForTask_body J post t w = (Continue, w') \<longleftrightarrow>
      s \<noteq> ''Success'' \<and> s \<noteq> ''Failed'' \<and> s \<noteq> ''Unknown''"
    by (simp add: WaitForTask_body_def)
  from assms show "(\<exists>r. WaitForTask_body J post t w = (Return r, w')) \<longleftrightarrow>
      s = ''Success'' \<or> s = ''Failed'' \<or> s = ''Unknown''"
    by (auto simp add: WaitForTask_body_def)
next
  assume "s \<in> {'''', ''success'', ''SUCCESS'', ''failed'', ''FAILED'', ''unknown'', ''UNKNOWN'',
      ''Success '', ''Succes''}"
  then have other: "s \<noteq> ''Success'' \<and> s \<noteq> ''Failed'' \<and> s \<noteq> ''Unknown''" by auto
  with assms show cont: "WaitForTask_body J post t w = (Continue, w')"
    by (simp add: WaitForTask_body_def)
  then show "WaitForTask J post t w = WaitForTask J post t w'"
    by (subst WaitForTask.simps) simp
  from other assms have "\<forall>i<Suc 0. running (poll_result J post t i w)"
    by (simp add: poll_result_0 running_def)
  from upto_last [OF this]
  have "snd (WaitForTask_upto J post t (Suc (Suc 0)) w) = poll_world J post t (Suc (Suc 0)) w"
    by (simp only: snd_body poll_world_Suc)
  then show "trace (snd (WaitForTask_upto J post t (Suc (Suc 0)) w)) =
      trace w @ [Sleep waitDurBeforeRetry, AdminQuery (task_params t),
                 Sleep waitDurBeforeRetry, AdminQuery (task_params t)]"
    by (simp add: trace_poll_world one_poll_def del: poll_world.simps WaitForTask_upto.simps)
qed

theorem WaitForTask_exact_match_witness:
  \<open>WaitForTask_body stub_json (script_post (Inl (Err ''EOF''))) ''0x2''
      \<lparr>cluster = [Inr ''{"data":{"task":{}}}''], trace = []\<rparr>
     = (Continue, \<lparr>cluster = [], trace = [Sleep 1000000000, AdminQuery (task_params ''0x2'')]\<rparr>)
   \<and> WaitForTask_body stub_json (script_post (Inl (Err ''EOF''))) ''0x2''
      \<lparr>cluster = [Inr ''{"data":{"task":{"status":"success"}}}''], trace = []\<rparr>
     = (Continue, \<lparr>cluster = [], trace = [Sleep 1000000000, AdminQuery (task_params ''0x2'')]\<rparr>)\<close>
  using WaitForTask_exact_match [of stub_json "script_post (Inl (Err ''EOF''))" "''0x2''"
      \<open>\<lparr>cluster = [Inr ''{"data":{"task":{}}}''], trace = []\<rparr>\<close> "''''"
      \<open>\<lparr>cluster = [], trace = [Sleep 1000000000, AdminQuery (task_params ''0x2'')]\<rparr>\<close>]
    WaitForTask_exact_match [of stub_json "script_post (Inl (Err ''EOF''))" "''0x2''"
      \<open>\<lparr>cluster = [Inr ''{"data":{"task":{"status":"success"}}}''], trace = []\<rparr>\<close> "''success''"
      \<open>\<lparr>cluster = [], trace = [Sleep 1000000000, AdminQuery (task_params ''0x2'')]\<rparr>\<close>]
  by (simp add: stub_defs waitDurBeforeRetry_def Second_def)

subsection \<open>Claims about \<open>Backup\<close>\<close>

text \<open>
  C5. If the answer to the backup mutation cannot be decoded as a GraphQL response, or
  its error list is not empty, then \<open>RunAdminQuery\<close> returns an error and \<open>Backup\<close>
  returns that error at once: the only thing the run adds to the trace is the backup
  query itself, which is not a status query, so no sleep and no status query happen.
\<close>

theorem Backup_response_error:
  assumes "Marshal J (backup_params forceFull backupPath) = Inr body"
    and "post (cluster w) body = (Inr respBody, c')"
    and "Unmarshal_graphQLResponse J respBody = Inl e
         \<or> (\<exists>g. Unmarshal_graphQLResponse J respBody = Inr g \<and> Errors g \<noteq> [])"
  shows "\<exists>err. RunAdminQuery J post (backup_params forceFull backupPath) w =
                 (Inl err, \<lparr>cluster = c',
                            trace = trace w @ [AdminQuery (backup_params forceFull backupPath)]\<rparr>)
             \<and> Backup J post forceFull backupPath w =
                 Some (Some err, \<lparr>cluster = c',
                                  trace = trace w @ [AdminQuery (backup_params forceFull backupPath)]\<rparr>)
             \<and> err = (case Unmarshal_graphQLResponse J respBody of
                        Inl e \<Rightarrow> Wrap e ''error unmarshalling GQL response''
                      | Inr g \<Rightarrow> Wrap (GqlErrorList (Errors g)) ''error while running admin query'')
             \<and> (\<forall>taskId. task_params taskId \<noteq> backup_params forceFull backupPath)"
proof -
  have q: "RunAdminQuery J post (backup_params forceFull backupPath) w =
      (Inl (case Unmarshal_graphQLResponse J respBody of
              Inl e \<Rightarrow> Wrap e ''error unmarshalling GQL response''
            | Inr g \<Rightarrow> Wrap (GqlErrorList (Errors g)) ''error while running admin query''),
       \<lparr>cluster = c', trace = trace w @ [AdminQuery (backup_params forceFull backupPath)]\<rparr>)"
    using assms by (rule RunAdminQuery_response_error)
  then have "Backup J post forceFull backupPath w =
      Some (Some (case Unmarshal_graphQLResponse J respBody of
              Inl e \<Rightarrow> Wrap e ''error unmarshalling GQL response''
            | Inr g \<Rightarrow> Wrap (GqlErrorList (Errors g)) ''error while running admin query''),
       \<lparr>cluster = c', trace = trace w @ [AdminQuery (backup_params forceFull backupPath)]\<rparr>)"
    by (simp add: Backup_def)
  with q queries_differ show ?thesis by blast
qed

theorem Backup_response_error_witness:
  \<open>Backup stub_json (script_post (Inl (Err ''EOF''))) True ''/backups''
      \<lparr>cluster = [Inr ''{"errors":[{"message":"resolving backup failed"}]}'',
                  Inr ''{"data":{"task":{"status":"Success"}}}''],
       trace = []\<rparr>
     = Some (Some (Wrap (GqlErrorList [''resolving backup failed''])
                     ''error while running admin query''),
         \<lparr>cluster = [Inr ''{"data":{"task":{"status":"Success"}}}''],
          trace = [AdminQuery (backup_params True ''/backups'')]\<rparr>)
   \<and> Backup stub_json (script_post (Inl (Err ''EOF''))) True ''/backups''
      \<lparr>cluster = [Inr ''not json'',
                  Inr ''{"data":{"task":{"status":"Success"}}}''],
       trace = []\<rparr>
     = Some (Some (Wrap (Err ''json: cannot unmarshal'') ''error unmarshalling GQL response''),
         \<lparr>cluster = [Inr ''{"data":{"task":{"status":"Success"}}}''],
          trace = [AdminQuery (backup_params True ''/backups'')]\<rparr>)\<close>
  using Backup_response_error [of stub_json True "''/backups''"
      \<open>''{"query":"'' @ backup_query @ ''"}''\<close> "script_post (Inl (Err ''EOF''))"
      \<open>\<lparr>cluster = [Inr ''{"errors":[{"message":"resolving backup failed"}]}'',
                  Inr ''{"data":{"task":{"status":"Success"}}}''],
       trace = []\<rparr>\<close>
      \<open>''{"errors":[{"message":"resolving backup failed"}]}''\<close>
      \<open>[Inr ''{"data":{"task":{"status":"Success"}}}'']\<close>]
    Backup_response_error [of stub_json True "''/backups''"
      \<open>''{"query":"'' @ backup_query @ ''"}''\<close> "script_post (Inl (Err ''EOF''))"
      \<open>\<lparr>cluster = [Inr ''not json'',
                  Inr ''{"data":{"task":{"status":"Success"}}}''],
       trace = []\<rparr>\<close>
      \<open>''not json''\<close>
      \<open>[Inr ''{"data":{"task":{"status":"Success"}}}'']\<close>]
  by (simp add: stub_json_def lookup_body_def gql_table_def script_post_def backup_params_def)

text \<open>
  C10. When the backup answer was received and decoded, \<open>Backup\<close> looks at the response
  code: for any code other than the string \<open>Success\<close> it returns the error
  \<open>backup failed\<close> without a sleep or a status query, and only for the code
  \<open>Success\<close> it continues as \<open>WaitForTask\<close> on the task id of the answer.
\<close>

theorem Backup_code_gate:
  assumes "RunAdminQuery J post (backup_params forceFull backupPath) w = (Inr resp, w1)"
    and "Unmarshal_backupResp J resp = Inr backupResp"
  shows "(Code (Response (BackupF backupResp)) \<noteq> ''Success'' \<longrightarrow>
            Backup J post forceFull backupPath w = Some (Some (Errorf ''backup failed''), w1)
          \<and> trace w1 = trace w @ [AdminQuery (backup_params forceFull backupPath)])
       \<and> (Code (Response (BackupF backupResp)) = ''Success'' \<longrightarrow>
            Backup J post forceFull backupPath w =
              WaitForTask J post (TaskID (BackupF backupResp)) w1)"
proof (intro conjI impI)
  assume "Code (Response (BackupF backupResp)) \<noteq> ''Success''"
  with assms show "Backup J post forceFull backupPath w = Some (Some (Errorf ''backup failed''), w1)"
    by (simp add: Backup_def)
  from trace_RunAdminQuery [of J post "backup_params forceFull backupPath" w] assms(1)
  show "trace w1 = trace w @ [AdminQuery (backup_params forceFull backupPath)]"
    by simp
next
  assume "Code (Response (BackupF backupResp)) = ''Success''"
  with assms show "Backup J post forceFull backupPath w =
      WaitForTask J post (TaskID (BackupF backupResp)) w1"
    by (simp add: Backup_def)
qed

theorem Backup_code_gate_witness:
  \<open>Backup stub_json (script_post (Inl (Err ''EOF''))) True ''/backups''
      \<lparr>cluster = [Inr ''{"data":{"backup":{"response":{"code":"Failure"},"taskId":"0x2"}}}'',
                  Inr ''{"data":{"task":{"status":"Success"}}}''],
       trace = []\<rparr>
     = Some (Some (Errorf ''backup failed''),
         \<lparr>cluster = [Inr ''{"data":{"task":{"status":"Success"}}}''],
          trace = [AdminQuery (backup_params True ''/backups'')]\<rparr>)
   \<and> Backup stub_json (script_post (Inl (Err ''EOF''))) True ''/backups''
      \<lparr>cluster = [Inr ''{"data":{"backup":{"response":{"code":"Success"},"taskId":"0x2"}}}'',
                  Inr ''{"data":{"task":{"status":"Success"}}}''],
       trace = []\<rparr>
     = WaitForTask stub_json (script_post (Inl (Err ''EOF''))) ''0x2''
         \<lparr>cluster = [Inr ''{"data":{"task":{"status":"Success"}}}''],
          trace = [AdminQuery (backup_params True ''/backups'')]\<rparr>\<close>
  using Backup_code_gate [of stub_json "script_post (Inl (Err ''EOF''))" True "''/backups''"
      \<open>\<lparr>cluster = [Inr ''{"data":{"backup":{"response":{"code":"Failure"},"taskId":"0x2"}}}'',
                  Inr ''{"data":{"task":{"status":"Success"}}}''],
       trace = []\<rparr>\<close>
      \<open>''{"backup":{"response":{"code":"Failure"},"taskId":"0x2"}}''\<close>
      \<open>\<lparr>cluster = [Inr ''{"data":{"task":{"status":"Success"}}}''],
          trace = [AdminQuery (backup_params True ''/backups'')]\<rparr>\<close>
      \<open>\<lparr>BackupF = \<lparr>Response = \<lparr>Code = ''Failure''\<rparr>, TaskID = ''0x2''\<rparr>\<rparr>\<close>]
    Backup_code_gate [of stub_json "script_post (Inl (Err ''EOF''))" True "''/backups''"
      \<open>\<lparr>cluster = [Inr ''{"data":{"backup":{"response":{"code":"Success"},"taskId":"0x2"}}}'',
                  Inr ''{"data":{"task":{"status":"Success"}}}''],
       trace = []\<rparr>\<close>
      \<open>''{"backup":{"response":{"code":"Success"},"taskId":"0x2"}}''\<close>
      \<open>\<lparr>cluster = [Inr ''{"data":{"task":{"status":"Success"}}}''],
          trace = [AdminQuery (backup_params True ''/backups'')]\<rparr>\<close>
      \<open>\<lparr>BackupF = \<lparr>Response = \<lparr>Code = ''Success''\<rparr>, TaskID = ''0x2''\<rparr>\<rparr>\<close>]
  by (simp add: stub_defs)

end
